theory Spec2Isabelle
  imports Main
begin

section \<open>Python values and exceptions\<close>

text \<open>
  The program is one function \<open>main\<close> (src/main.py): it sets up a logger, opens the
  database, authenticates against the forum and the playlist service, and runs the work
  loop. Log lines are not modelled. Exceptions are values: \<open>SpotifyException\<close> is the class
  the playlist client raises for a request the service rejects, \<open>NetworkError\<close> stands for
  any other exception of a remote call, and \<open>IndexError\<close>, \<open>TypeError\<close> and
  \<open>OperationalError\<close> are the ones the body of the loop can raise itself (a list index out
  of range, subscripting \<open>None\<close>, a failing SQL statement). No handler of \<open>main\<close> catches the
  last three where the body raises them, so they end the process.
\<close>

datatype exn = SpotifyException | NetworkError | IndexError | TypeError | OperationalError

text \<open>Python's \<open>xs[i]\<close> for an index \<open>i \<ge> 0\<close>.\<close>

definition index :: "'a list \<Rightarrow> nat \<Rightarrow> exn + 'a" where
  "index xs i = (if i < length xs then Inr (xs ! i) else Inl IndexError)"

text \<open>Python's \<open>sep.join(xs)\<close>.\<close>

fun join :: "string \<Rightarrow> string list \<Rightarrow> string" where
  "join sep [] = []"
| "join sep [x] = x"
| "join sep (x # y # ys) = x @ sep @ join sep (y # ys)"

text \<open>
  Python's \<open>s.lower()\<close> on the ASCII letters. A \<open>char\<close> is a byte, so a character
  outside ASCII is a run of bytes above 127 that stays as it is; no such character
  lower-cases to a letter of \<open>playlist\<close> or \<open>user\<close>, the only words the result is compared with.
\<close>

definition lower_char :: "char \<Rightarrow> char" where
  "lower_char c =
     (case map_of (zip ''ABCDEFGHIJKLMNOPQRSTUVWXYZ'' ''abcdefghijklmnopqrstuvwxyz'') c of
        Some d \<Rightarrow> d
      | None \<Rightarrow> c)"

definition lower :: "string \<Rightarrow> string" where
  "lower s = map lower_char s"

text \<open>Python's \<open>"{}".format(n)\<close> and \<open>"{:,}".format(n)\<close> for an integer \<open>n\<close>.\<close>

definition digit_char :: "nat \<Rightarrow> char" where
  "digit_char d = ''0123456789'' ! (d mod 10)"

function str_nat :: "nat \<Rightarrow> string" where
  "str_nat n = (if n < 10 then [digit_char n] else str_nat (n div 10) @ [digit_char (n mod 10)])"
  by pat_completeness auto
termination
  by (relation "measure (\<lambda>n. n)") auto

declare str_nat.simps [simp del]

definition str_int :: "int \<Rightarrow> string" where
  "str_int i = (if i < 0 then CHR ''-'' # str_nat (nat (- i)) else str_nat (nat i))"

function commas_nat :: "nat \<Rightarrow> string" where
  "commas_nat n =
     (if n < 1000 then str_nat n
      else commas_nat (n div 1000) @ '','' @
           [digit_char (n mod 1000 div 100), digit_char (n mod 100 div 10), digit_char (n mod 10)])"
  by pat_completeness auto
termination
  by (relation "measure (\<lambda>n. n)") auto

declare commas_nat.simps [simp del]

definition commas_int :: "int \<Rightarrow> string" where
  "commas_int i = (if i < 0 then CHR ''-'' # commas_nat (nat (- i)) else commas_nat (nat i))"

definition nl :: string where
  "nl = [CHR 0x0A]"

section \<open>Data\<close>

text \<open>
  A playlist item is the dictionary the service returns; only its \<open>track\<close> entry is read,
  and that entry is \<open>None\<close> for a track that is no longer available. \<open>artists\<close> holds the
  \<open>name\<close> of each artist, \<open>external_url\<close> is \<open>external_urls.spotify\<close>.
\<close>

record track =
  duration_ms :: int
  popularity :: int
  artists :: "string list"
  track_name :: string
  external_url :: string

type_synonym item = "track option"

record playlist =
  playlist_name :: string
  owner_display_name :: string
  owner_url :: string
  followers_total :: int
  tracks_items :: "item list"
  tracks_total :: int

text \<open>
  What \<open>furl(submission.url)\<close> gives: the host (\<open>None\<close> when the URL has none) and the
  segments of the path.
\<close>

record parsed_url =
  host :: "string option"
  segments :: "string list"

text \<open>
  A submission; \<open>created_utc\<close> is \<open>int(submission.created_utc)\<close>, whole seconds since the
  epoch.
\<close>

record submission =
  submission_id :: string
  created_utc :: int
  url :: string
  permalink :: string

text \<open>
  The remote services, the URL parser and the clock are parameters. A remote call's
  outcome depends on how many calls of that kind were made before it (the first index),
  so that a call can fail and later succeed. \<open>utcnow\<close> is
  \<open>int(datetime.utcnow().timestamp())\<close> at the \<open>n\<close>-th reading of the clock.
\<close>

record env =
  subreddit_new :: "nat \<Rightarrow> exn + submission list"
  furl :: "string \<Rightarrow> parsed_url"
  spotify_playlist :: "nat \<Rightarrow> string \<Rightarrow> exn + playlist"
  spotify_playlist_tracks :: "nat \<Rightarrow> string \<Rightarrow> nat \<Rightarrow> exn + item list"
  submission_reply :: "nat \<Rightarrow> submission \<Rightarrow> string \<Rightarrow> exn + unit"
  utcnow :: "nat \<Rightarrow> int"

text \<open>
  The state of the work loop. \<open>submission_ids\<close> is the list of line 60.
  \<open>submissions_table\<close> is the table \<open>submissions\<close> of \<open>data.db\<close>, rows of identifier and
  timestamp in insertion order, and \<open>None\<close> when the database has no such table. The
  other fields record what the loop did to the outside: how many calls of each kind it
  made, the offsets it asked pages for, the replies it posted, and the seconds of each
  \<open>time.sleep\<close>.
\<close>

record world =
  submission_ids :: "string list"
  submissions_table :: "(string \<times> int) list option"
  clock_reads :: nat
  new_calls :: nat
  playlist_calls :: nat
  tracks_calls :: nat
  requested_offsets :: "nat list"
  reply_calls :: nat
  replies :: "(string \<times> string) list"
  slept :: "int list"

text \<open>
  Lines 33-35 and 60: \<open>sqlite3.connect\<close> opens \<open>data.db\<close>, creating an empty file when
  there is none; no statement of the program creates a table. \<open>on_disk\<close> is the table
  \<open>submissions\<close> found in the file, \<open>None\<close> for a new or empty database.
\<close>

definition startup :: "(string \<times> int) list option \<Rightarrow> world" where
  "startup on_disk =
     \<lparr>submission_ids = [], submissions_table = on_disk, clock_reads = 0, new_calls = 0,
      playlist_calls = 0, tracks_calls = 0, requested_offsets = [], reply_calls = 0,
      replies = [], slept = []\<rparr>"

section \<open>Retrying a remote call\<close>

text \<open>
  The \<open>while retry\<close> loop, written out four times in the source (lines 74-88, 140-154,
  168-182, 238-252) with the same body around a different call: sleep, double the sleep
  time while it is below 32, call again, and stop at the first call that returns.
  \<open>call k\<close> is the outcome of the call when \<open>k\<close> calls were made before, \<open>sl\<close> the sleeps
  so far. The loop has no bound, so it is a partial function: \<open>None\<close> is a loop that
  never ends. \<open>attempt_count\<close> only feeds a log line and is left out.
\<close>

definition next_sleep :: "int \<Rightarrow> int" where
  "next_sleep sleep_time = (if sleep_time < 32 then sleep_time * 2 else sleep_time)"

partial_function (option) retry_loop ::
  "(nat \<Rightarrow> exn + 'a) \<Rightarrow> nat \<Rightarrow> int \<Rightarrow> int list \<Rightarrow> ('a \<times> nat \<times> int list) option" where
  "retry_loop call k sleep_time sl =
     (case call k of
        Inr v \<Rightarrow> Some (v, Suc k, sl @ [sleep_time])
      | Inl err \<Rightarrow>
          retry_loop call (Suc k) (next_sleep sleep_time) (sl @ [sleep_time]))"

declare retry_loop.simps [code]

text \<open>
  A first attempt, and the loop when it raises anything (\<open>except Exception\<close>): the
  fetch of new submissions, the fetch of a page of tracks, and the reply.
\<close>

definition with_retry ::
  "(nat \<Rightarrow> exn + 'a) \<Rightarrow> nat \<Rightarrow> int list \<Rightarrow> ('a \<times> nat \<times> int list) option" where
  "with_retry call k sl =
     (case call k of
        Inr v \<Rightarrow> Some (v, Suc k, sl)
      | Inl err \<Rightarrow> retry_loop call (Suc k) 2 sl)"

text \<open>
  Lines 127-154, the fetch of the playlist: a \<open>SpotifyException\<close> of the first attempt
  is not retried (the result is \<open>None\<close>: no playlist), any other exception enters the
  loop, whose handler catches every exception.
\<close>

definition get_playlist ::
  "(nat \<Rightarrow> exn + 'a) \<Rightarrow> nat \<Rightarrow> int list \<Rightarrow> ('a option \<times> nat \<times> int list) option" where
  "get_playlist call k sl =
     (case call k of
        Inr v \<Rightarrow> Some (Some v, Suc k, sl)
      | Inl err \<Rightarrow>
          (if err = SpotifyException then Some (None, Suc k, sl)
           else (case retry_loop call (Suc k) 2 sl of
                   None \<Rightarrow> None
                 | Some (v, k', sl') \<Rightarrow> Some (Some v, k', sl'))))"

section \<open>Pages of tracks (lines 156-187)\<close>

text \<open>
  \<open>call j offset\<close> is \<open>spotify.playlist_tracks(playlist_id, offset=offset)\<close> as the
  \<open>j\<close>-th call; \<open>offs\<close> collects the offset of every call made, retries included.
\<close>

partial_function (option) fetch_all_tracks ::
  "(nat \<Rightarrow> nat \<Rightarrow> exn + item list) \<Rightarrow> int \<Rightarrow> item list \<Rightarrow> nat \<Rightarrow> nat \<Rightarrow> nat list \<Rightarrow> int list
     \<Rightarrow> (item list \<times> nat \<times> nat list \<times> int list) option" where
  "fetch_all_tracks call n_total items offset j offs sl =
     (if int (length items) < n_total then
        (case with_retry (\<lambda>n. call n offset) j sl of
           None \<Rightarrow> None
         | Some (tracks, j', sl') \<Rightarrow>
             fetch_all_tracks call n_total (items @ tracks) (offset + 100) j'
               (offs @ replicate (j' - j) offset) (sl' @ [1]))
      else Some (items, j, offs, sl))"

declare fetch_all_tracks.simps [code]

section \<open>The reply (lines 189-226)\<close>

definition total_ms :: "item list \<Rightarrow> int" where
  "total_ms items = sum_list (map (\<lambda>i. duration_ms (the i)) (filter (\<lambda>i. i \<noteq> None) items))"

text \<open>
  \<open>int(total_ms / 3600000)\<close> and \<open>int((total_ms / 60000) % 60)\<close>: \<open>int\<close> truncates towards
  zero and Python's \<open>%\<close> takes the sign of the divisor. The rounding of the floating-point
  quotient is not modelled.
\<close>

definition hours :: "int \<Rightarrow> int" where
  "hours ms = (if 0 \<le> ms then ms div 3600000 else - ((- ms) div 3600000))"

definition minutes :: "int \<Rightarrow> int" where
  "minutes ms = (ms div 60000) mod 60"

definition popularity_key :: "item \<Rightarrow> int" where
  "popularity_key i = (case i of None \<Rightarrow> 0 | Some t \<Rightarrow> popularity t)"

text \<open>
  \<open>sorted(items, key=..., reverse=True)\<close>: descending, and items of equal key keep their
  order, as the stable insertion sort on the negated key does.
\<close>

definition ranked_tracks :: "item list \<Rightarrow> item list" where
  "ranked_tracks items = sort_key (\<lambda>i. - popularity_key i) items"

text \<open>
  \<open>artists_raw[:-2]\<close> is \<open>take (n - 2)\<close> and \<open>artists_raw[-2:]\<close> is \<open>drop (n - 2)\<close>, with the
  truncating subtraction of \<open>nat\<close>: for fewer than two elements Python gives the empty list
  and the whole list.
\<close>

definition arists_string :: "string list \<Rightarrow> string" where
  "arists_string artists_raw =
     (if length artists_raw = 1 then artists_raw ! 0
      else if length artists_raw = 2 then artists_raw ! 0 @ '' and '' @ artists_raw ! 1
      else join '', ''
             (take (length artists_raw - 2) artists_raw
              @ [join '', and '' (drop (length artists_raw - 2) artists_raw)]))"

text \<open>
  The loop of lines 214-226 over \<open>ranked_tracks[:5]\<close>. \<open>track["track"]["artists"]\<close> on an
  item whose track is \<open>None\<close> raises \<open>TypeError\<close>.
\<close>

fun top_tracks :: "string \<Rightarrow> item list \<Rightarrow> exn + string" where
  "top_tracks response [] = Inr response"
| "top_tracks response (None # rest) = Inl TypeError"
| "top_tracks response (Some t # rest) =
     top_tracks
       (response @ ''* ['' @ arists_string (artists t) @ '' - '' @ track_name t @ '']('' @
          external_url t @ '')'' @ nl)
       rest"

definition build_response :: "submission \<Rightarrow> playlist \<Rightarrow> exn + string" where
  "build_response s p =
     top_tracks
       (''Playlist name: ['' @ playlist_name p @ '']('' @ url s @ '')'' @ nl @ nl @
        ''Playlist author: ['' @ owner_display_name p @ '']('' @ owner_url p @ '')'' @ nl @ nl @
        ''Number of tracks: '' @ str_nat (length (tracks_items p)) @ nl @ nl @
        ''Length: '' @ str_int (hours (total_ms (tracks_items p))) @ '' hr '' @
          str_int (minutes (total_ms (tracks_items p))) @ '' min'' @ nl @ nl @
        ''Followers: '' @ commas_int (followers_total p) @ nl @ nl @
        ''Top tracks:'' @ nl @ nl)
       (take 5 (ranked_tracks (tracks_items p)))"

section \<open>The identifier of the playlist (lines 113-122)\<close>

text \<open>\<open>Inr None\<close> is the \<open>else\<close> branch: no identifier, the submission is ignored.\<close>

definition playlist_id_of :: "string list \<Rightarrow> exn + string option" where
  "playlist_id_of segs =
     (case index segs 0 of
        Inl e \<Rightarrow> Inl e
      | Inr s0 \<Rightarrow>
          if lower s0 = ''playlist'' then
            (case index segs 1 of Inl e \<Rightarrow> Inl e | Inr p \<Rightarrow> Inr (Some p))
          else if lower s0 = ''user'' then
            (case index segs 3 of Inl e \<Rightarrow> Inl e | Inr p \<Rightarrow> Inr (Some p))
          else Inr None)"

section \<open>One submission (the body of the loop of line 90)\<close>

text \<open>\<open>while len(submission_ids) > 125: submission_ids.pop(0)\<close>.\<close>

function evict :: "string list \<Rightarrow> string list" where
  "evict ids = (if length ids > 125 then evict (tl ids) else ids)"
  by pat_completeness auto
termination
  by (relation "measure length") auto

declare evict.simps [simp del]

text \<open>
  Where the body ended for a submission: at one of its \<open>continue\<close> statements, in source
  order, or at its last line after the reply.
\<close>

datatype outcome =
  AlreadyCached | Stale | InStore | BadHost | NoPlaylistId | PlaylistNotFound | Replied string

definition append_id :: "string \<Rightarrow> world \<Rightarrow> world" where
  "append_id i w = w\<lparr>submission_ids := submission_ids w @ [i]\<rparr>"

text \<open>
  Lines 124-264, for a submission whose URL gave \<open>playlist_id\<close>; \<open>rows\<close> is the table
  the \<open>select\<close> of line 99 read. The result is \<open>None\<close> when a retry loop never ends and
  \<open>Some (Inl e)\<close> when the body raises \<open>e\<close>.
\<close>

definition reply_to_playlist ::
  "env \<Rightarrow> submission \<Rightarrow> string \<Rightarrow> (string \<times> int) list \<Rightarrow> world \<Rightarrow> (exn + outcome \<times> world) option" where
  "reply_to_playlist E s playlist_id rows w =
     (case get_playlist (\<lambda>k. spotify_playlist E k playlist_id) (playlist_calls w) (slept w) of
        None \<Rightarrow> None
      | Some (None, k, sl) \<Rightarrow>
          Some (Inr (PlaylistNotFound,
            append_id (submission_id s) (w\<lparr>playlist_calls := k, slept := sl\<rparr>)))
      | Some (Some p, k, sl) \<Rightarrow>
          (case fetch_all_tracks (\<lambda>j offset. spotify_playlist_tracks E j playlist_id offset)
                  (tracks_total p) (tracks_items p) 100 (tracks_calls w) (requested_offsets w) sl of
             None \<Rightarrow> None
           | Some (items, j, offs, sl') \<Rightarrow>
               (case build_response s (p\<lparr>tracks_items := items\<rparr>) of
                  Inl e \<Rightarrow> Some (Inl e)
                | Inr response \<Rightarrow>
                    (case with_retry (\<lambda>n. submission_reply E n s response) (reply_calls w) sl' of
                       None \<Rightarrow> None
                     | Some (u, n, sl'') \<Rightarrow>
                         Some (Inr (Replied response,
                           w\<lparr>submission_ids := evict (submission_ids w @ [submission_id s]),
                             submissions_table :=
                               Some (rows @ [(submission_id s, utcnow E (clock_reads w))]),
                             clock_reads := Suc (clock_reads w),
                             playlist_calls := k, tracks_calls := j, requested_offsets := offs,
                             reply_calls := n,
                             replies := replies w @ [(submission_id s, response)],
                             slept := sl'' @ [1]\<rparr>))))))"

text \<open>
  Lines 104-264: what the body does with a submission that passed the checks of lines
  91-102.
\<close>

definition process_submission ::
  "env \<Rightarrow> submission \<Rightarrow> (string \<times> int) list \<Rightarrow> world \<Rightarrow> (exn + outcome \<times> world) option" where
  "process_submission E s rows w =
     (if host (furl E (url s)) \<noteq> Some ''open.spotify.com'' then
        Some (Inr (BadHost, append_id (submission_id s) w))
      else
        (case playlist_id_of (segments (furl E (url s))) of
           Inl e \<Rightarrow> Some (Inl e)
         | Inr None \<Rightarrow> Some (Inr (NoPlaylistId, append_id (submission_id s) w))
         | Inr (Some playlist_id) \<Rightarrow> reply_to_playlist E s playlist_id rows w))"

text \<open>
  The whole body. Lines 91-102: the list in memory, the age (the clock is read once
  here), the table (\<open>select * from submissions where id=?\<close>, which raises
  \<open>OperationalError\<close> when there is no table \<open>submissions\<close>).
\<close>

definition handle_submission :: "env \<Rightarrow> submission \<Rightarrow> world \<Rightarrow> (exn + outcome \<times> world) option" where
  "handle_submission E s w =
     (if submission_id s \<in> set (submission_ids w) then Some (Inr (AlreadyCached, w))
      else if created_utc s < utcnow E (clock_reads w) - 900 then
        Some (Inr (Stale, append_id (submission_id s) (w\<lparr>clock_reads := Suc (clock_reads w)\<rparr>)))
      else
        (case submissions_table w of
           None \<Rightarrow> Some (Inl OperationalError)
         | Some rows \<Rightarrow>
             if submission_id s \<in> fst ` set rows then
               Some (Inr (InStore,
                 append_id (submission_id s) (w\<lparr>clock_reads := Suc (clock_reads w)\<rparr>)))
             else process_submission E s rows (w\<lparr>clock_reads := Suc (clock_reads w)\<rparr>)))"

section \<open>The work loop (lines 63-264)\<close>

fun for_submissions :: "env \<Rightarrow> submission list \<Rightarrow> world \<Rightarrow> (exn + world) option" where
  "for_submissions E [] w = Some (Inr w)"
| "for_submissions E (s # rest) w =
     (case handle_submission E s w of
        None \<Rightarrow> None
      | Some (Inl e) \<Rightarrow> Some (Inl e)
      | Some (Inr (out, w')) \<Rightarrow> for_submissions E rest w')"

text \<open>One round of \<open>while True\<close>: fetch the newest submissions, then the loop over them.\<close>

definition work_round :: "env \<Rightarrow> world \<Rightarrow> (exn + world) option" where
  "work_round E w =
     (case with_retry (subreddit_new E) (new_calls w) (slept w) of
        None \<Rightarrow> None
      | Some (new_submissions, k, sl) \<Rightarrow>
          for_submissions E new_submissions (w\<lparr>new_calls := k, slept := sl\<rparr>))"

text \<open>The first \<open>n\<close> rounds of the work loop, which itself never ends.\<close>

fun work_rounds :: "env \<Rightarrow> nat \<Rightarrow> world \<Rightarrow> (exn + world) option" where
  "work_rounds E 0 w = Some (Inr w)"
| "work_rounds E (Suc n) w =
     (case work_round E w of
        None \<Rightarrow> None
      | Some (Inl e) \<Rightarrow> Some (Inl e)
      | Some (Inr w') \<Rightarrow> work_rounds E n w')"

section \<open>Example data\<close>

text \<open>A track, a playlist of two tracks, a submission that links to it, and services that answer at once.\<close>

definition example_track :: track where
  "example_track =
     \<lparr>duration_ms = 120000, popularity = 50, artists = [''A'', ''B'', ''C''],
      track_name = ''Song'', external_url = ''https://open.spotify.com/track/t1''\<rparr>"

definition example_playlist :: "item list \<Rightarrow> playlist" where
  "example_playlist items =
     \<lparr>playlist_name = ''Mix'', owner_display_name = ''bob'',
      owner_url = ''https://open.spotify.com/user/bob'', followers_total = 1234,
      tracks_items = items, tracks_total = int (length items)\<rparr>"

definition example_submission :: submission where
  "example_submission =
     \<lparr>submission_id = ''abc'', created_utc = 1000,
      url = ''https://open.spotify.com/playlist/p1'', permalink = ''/r/SpotifyPlaylists/abc''\<rparr>"

definition example_env :: "item list \<Rightarrow> env" where
  "example_env items =
     \<lparr>subreddit_new = (\<lambda>k. Inr [example_submission]),
      furl = (\<lambda>u. \<lparr>host = Some ''open.spotify.com'', segments = [''playlist'', ''p1'']\<rparr>),
      spotify_playlist = (\<lambda>k i. Inr (example_playlist items)),
      spotify_playlist_tracks = (\<lambda>k i offset. Inr []),
      submission_reply = (\<lambda>k s r. Inr ()),
      utcnow = (\<lambda>n. 1100)\<rparr>"

text \<open>
  Identifiers for examples that need many submissions, submissions that are older than
  15 minutes, and a forum that shows 63 of them in each round.
\<close>

definition numbered_id :: "nat \<Rightarrow> string" where
  "numbered_id n = replicate (Suc n) CHR ''x''"

definition old_submission :: "nat \<Rightarrow> submission" where
  "old_submission n =
     \<lparr>submission_id = numbered_id n, created_utc = 0,
      url = ''https://open.spotify.com/playlist/p1'', permalink = ''/r/SpotifyPlaylists/old''\<rparr>"

definition old_env :: env where
  "old_env = (example_env [])\<lparr>subreddit_new := (\<lambda>k. Inr (map old_submission [63 * k..<63 * k + 63]))\<rparr>"

section \<open>Theorems\<close>

subsection \<open>Unfolding the loops one step\<close>

lemma join_snoc:
  "xs \<noteq> [] \<Longrightarrow> join sep (xs @ [y]) = join sep xs @ sep @ y"
  by (induction sep xs rule: join.induct) auto

lemma retry_loop_returns:
  "call k = Inr v \<Longrightarrow> retry_loop call k st sl = Some (v, Suc k, sl @ [st])"
  by (subst retry_loop.simps) simp

lemma retry_loop_raises:
  "call k = Inl e \<Longrightarrow>
   retry_loop call k st sl = retry_loop call (Suc k) (next_sleep st) (sl @ [st])"
  by (subst retry_loop.simps) simp


lemma get_playlist_returns:
  "call k = Inr v \<Longrightarrow> get_playlist call k sl = Some (Some v, Suc k, sl)"
  by (simp add: get_playlist_def)

lemma fetch_all_tracks_done:
  "\<not> int (length items) < n_total \<Longrightarrow>
   fetch_all_tracks call n_total items offset j offs sl = Some (items, j, offs, sl)"
  by (subst fetch_all_tracks.simps) simp


lemma evict_drop: "evict ids = drop (length ids - 125) ids"
proof (induction ids rule: evict.induct)
  case (1 ids)
  show ?case
  proof (cases "length ids > 125")
    case True
    then obtain a list where ids: "ids = a # list" by (cases ids) auto
    with True have len: "length list - 124 = Suc (length list - 125)" by simp
    have "evict ids = evict (tl ids)" using True by (subst evict.simps) simp
    also have "\<dots> = drop (length (tl ids) - 125) (tl ids)" using 1 True by simp
    also have "\<dots> = drop (length ids - 125) ids"
      using ids len by simp
    finally show ?thesis .
  next
    case False
    then show ?thesis by (subst evict.simps) simp
  qed
qed

subsection \<open>Evaluating the body on the example data\<close>

lemmas example_defs =
  example_env_def example_submission_def example_playlist_def example_track_def startup_def

lemmas body_defs =
  handle_submission_def process_submission_def reply_to_playlist_def append_id_def
  playlist_id_of_def index_def lower_def lower_char_def get_playlist_def with_retry_def

lemmas response_defs =
  build_response_def ranked_tracks_def popularity_key_def total_ms_def hours_def minutes_def
  str_int_def commas_int_def digit_char_def arists_string_def nl_def str_nat.simps
  commas_nat.simps

lemma example_replies:
  assumes "''abc'' \<notin> set (submission_ids w)" and "submissions_table w = Some rows"
    and "''abc'' \<notin> fst ` set rows"
  shows "\<exists>r w'. handle_submission
         (example_env
            [Some example_track, Some (example_track\<lparr>popularity := 70, artists := [''D'']\<rparr>)])
         example_submission w = Some (Inr (Replied r, w'))"
  using assms
  by (simp add: body_defs example_defs response_defs fetch_all_tracks_done)

lemma numbered_id_inj: "numbered_id m = numbered_id n \<longleftrightarrow> m = n"
proof
  assume "numbered_id m = numbered_id n"
  then have "length (numbered_id m) = length (numbered_id n)" by simp
  then show "m = n" by (simp add: numbered_id_def)
qed simp

lemma abc_not_numbered: "''abc'' \<noteq> numbered_id n"
  by (simp add: numbered_id_def)

text \<open>How the part of the body after the URL checks can end when it does not raise.\<close>

lemma reply_to_playlist_cases:
  assumes "reply_to_playlist E s pid rows w = Some (Inr (out, w'))"
  shows "(out = PlaylistNotFound \<and> submission_ids w' = submission_ids w @ [submission_id s]
            \<and> submissions_table w' = submissions_table w)
       \<or> (\<exists>r. out = Replied r
            \<and> submission_ids w' = evict (submission_ids w @ [submission_id s])
            \<and> submissions_table w' = Some (rows @ [(submission_id s, utcnow E (clock_reads w))]))"
  using assms unfolding reply_to_playlist_def append_id_def
  by (auto split: option.splits sum.splits prod.splits)

text \<open>How the whole body can end when it does not raise and the identifier was not in the list.\<close>

lemma handle_submission_cases:
  assumes "handle_submission E s w = Some (Inr (out, w'))" and "out \<noteq> AlreadyCached"
  shows "submission_id s \<notin> set (submission_ids w)
     \<and> ((out \<in> {Stale, InStore, BadHost, NoPlaylistId, PlaylistNotFound}
          \<and> submission_ids w' = submission_ids w @ [submission_id s]
          \<and> submissions_table w' = submissions_table w)
        \<or> (\<exists>r rows. out = Replied r \<and> submissions_table w = Some rows
             \<and> submission_id s \<notin> fst ` set rows
             \<and> submission_ids w' = evict (submission_ids w @ [submission_id s])
             \<and> submissions_table w' =
                 Some (rows @ [(submission_id s, utcnow E (Suc (clock_reads w)))])))"
proof -
  have fresh: "submission_id s \<notin> set (submission_ids w)"
    using assms by (auto simp add: handle_submission_def split: if_splits)
  show ?thesis
  proof (cases "created_utc s < utcnow E (clock_reads w) - 900")
    case True
    with assms fresh show ?thesis by (auto simp add: handle_submission_def append_id_def)
  next
    case False
    note fresh_age = this
    show ?thesis
    proof (cases "submissions_table w")
      case None
      with assms fresh fresh_age show ?thesis by (simp add: handle_submission_def)
    next
      case (Some rows)
      show ?thesis
      proof (cases "submission_id s \<in> fst ` set rows")
        case True
        with assms fresh fresh_age Some show ?thesis
          by (auto simp add: handle_submission_def append_id_def)
      next
        case False
        with assms fresh fresh_age Some have p:
          "process_submission E s rows (w\<lparr>clock_reads := Suc (clock_reads w)\<rparr>) = Some (Inr (out, w'))"
          by (simp add: handle_submission_def)
        show ?thesis
        proof (cases "host (furl E (url s)) \<noteq> Some ''open.spotify.com''")
          case True
          with p fresh show ?thesis by (auto simp add: process_submission_def append_id_def)
        next
          case hostok: False
          show ?thesis
          proof (cases "playlist_id_of (segments (furl E (url s)))")
            case (Inl e)
            with p hostok show ?thesis by (simp add: process_submission_def)
          next
            case (Inr po)
            show ?thesis
            proof (cases po)
              case None
              with p hostok Inr fresh show ?thesis
                by (auto simp add: process_submission_def append_id_def)
            next
              case (Some pid)
              with p hostok Inr have
                "reply_to_playlist E s pid rows (w\<lparr>clock_reads := Suc (clock_reads w)\<rparr>)
                   = Some (Inr (out, w'))"
                by (simp add: process_submission_def)
              from reply_to_playlist_cases [OF this] fresh False \<open>submissions_table w = Some rows\<close>
              show ?thesis by auto
            qed
          qed
        qed
      qed
    qed
  qed
qed

lemma count_list_evict_new:
  assumes "i \<notin> set ids"
  shows "count_list (evict (ids @ [i])) i = 1"
proof -
  have le: "length (ids @ [i]) - 125 \<le> length ids" by simp
  have "evict (ids @ [i]) = drop (length (ids @ [i]) - 125) ids @ [i]"
    using le by (simp add: evict_drop)
  moreover have "i \<notin> set (drop (length (ids @ [i]) - 125) ids)"
    using assms by (meson in_set_dropD)
  ultimately show ?thesis by (simp add: count_list_0_iff)
qed

text \<open>A batch of old submissions, none of them seen before: each is appended to the list.\<close>

lemma for_submissions_stale:
  assumes "\<forall>s\<in>set subs. \<forall>n. created_utc s < utcnow E n - 900"
    and "distinct (map submission_id subs)"
    and "submission_id ` set subs \<inter> set (submission_ids w) = {}"
  shows "for_submissions E subs w =
           Some (Inr (w\<lparr>submission_ids := submission_ids w @ map submission_id subs,
                         clock_reads := clock_reads w + length subs\<rparr>))"
  using assms
proof (induction subs arbitrary: w)
  case Nil
  show ?case by simp
next
  case (Cons s subs)
  let ?w1 = "w\<lparr>submission_ids := submission_ids w @ [submission_id s],
                clock_reads := Suc (clock_reads w)\<rparr>"
  have h: "handle_submission E s w = Some (Inr (Stale, ?w1))"
    using Cons.prems by (simp add: handle_submission_def append_id_def)
  have old: "\<forall>s\<in>set subs. \<forall>n. created_utc s < utcnow E n - 900"
    using Cons.prems(1) by simp
  have dist: "distinct (map submission_id subs)" using Cons.prems(2) by simp
  have disj: "submission_id ` set subs \<inter> set (submission_ids ?w1) = {}"
    using Cons.prems(2,3) by auto
  have "for_submissions E (s # subs) w = for_submissions E subs ?w1"
    using h by simp
  also have "\<dots> = Some (Inr (?w1\<lparr>submission_ids := submission_ids ?w1 @ map submission_id subs,
                         clock_reads := clock_reads ?w1 + length subs\<rparr>))"
    by (rule Cons.IH [OF old dist disj])
  finally show ?case by simp
qed

lemma old_round:
  assumes "set (submission_ids w) \<subseteq> numbered_id ` {0..<63 * new_calls w}"
  shows "work_round old_env w =
           Some (Inr (w\<lparr>submission_ids :=
                          submission_ids w @ map numbered_id [63 * new_calls w..<63 * new_calls w + 63],
                         clock_reads := clock_reads w + 63,
                         new_calls := Suc (new_calls w)\<rparr>))"
proof -
  let ?subs = "map old_submission [63 * new_calls w..<63 * new_calls w + 63]"
  let ?w0 = "w\<lparr>new_calls := Suc (new_calls w), slept := slept w\<rparr>"
  have ids: "map submission_id ?subs = map numbered_id [63 * new_calls w..<63 * new_calls w + 63]"
    by (simp add: old_submission_def comp_def)
  have old: "\<forall>s\<in>set ?subs. \<forall>n. created_utc s < utcnow old_env n - 900"
    by (simp add: old_submission_def old_env_def example_env_def)
  have dist: "distinct (map submission_id ?subs)"
    unfolding ids by (simp add: distinct_map inj_on_def numbered_id_inj)
  have disj: "submission_id ` set ?subs \<inter> set (submission_ids ?w0) = {}"
  proof -
    have "submission_id ` set ?subs = numbered_id ` {63 * new_calls w..<63 * new_calls w + 63}"
      using ids by (metis list.set_map set_upt)
    then show ?thesis using assms by (auto simp add: numbered_id_inj)
  qed
  have "work_round old_env w = for_submissions old_env ?subs ?w0"
    by (simp add: work_round_def with_retry_def old_env_def example_env_def)
  also have "\<dots> = Some (Inr (?w0\<lparr>submission_ids := submission_ids ?w0 @ map submission_id ?subs,
                         clock_reads := clock_reads ?w0 + length ?subs\<rparr>))"
    by (rule for_submissions_stale [OF old dist disj])
  finally show ?thesis using ids by simp
qed

subsection \<open>Retry and backoff\<close>

lemma retry_loop_sleeps:
  "\<forall>i<n. isl (call (k + i)) \<Longrightarrow> call (k + n) = Inr v \<Longrightarrow>
   retry_loop call k st sl =
     Some (v, Suc (k + n), sl @ map (\<lambda>i. (next_sleep ^^ i) st) [0..<Suc n])"
proof (induction n arbitrary: k st sl)
  case 0
  then show ?case by (simp add: retry_loop_returns)
next
  case (Suc n)
  from Suc.prems(1) have "isl (call k)" by (metis add.right_neutral zero_less_Suc)
  then obtain e where e: "call k = Inl e" by (cases "call k") auto
  have fails: "\<forall>i<n. isl (call (Suc k + i))"
    using Suc.prems(1) by (metis Suc_less_eq add_Suc_shift)
  have ok: "call (Suc k + n) = Inr v" using Suc.prems(2) by simp
  have "retry_loop call k st sl = retry_loop call (Suc k) (next_sleep st) (sl @ [st])"
    using e retry_loop_raises [of call k e st sl] by simp
  also have "\<dots> = Some (v, Suc (Suc k + n),
      (sl @ [st]) @ map (\<lambda>i. (next_sleep ^^ i) (next_sleep st)) [0..<Suc n])"
    by (rule Suc.IH [OF fails ok])
  also have "(sl @ [st]) @ map (\<lambda>i. (next_sleep ^^ i) (next_sleep st)) [0..<Suc n]
      = sl @ map (\<lambda>i. (next_sleep ^^ i) st) [0..<Suc (Suc n)]"
    by (subst (2) map_upt_Suc) (simp add: funpow_swap1)
  finally show ?case by simp
qed

lemma next_sleep_iter: "(next_sleep ^^ i) 2 = min (2 ^ Suc i) 32"
proof (induction i)
  case 0
  show ?case by simp
next
  case (Suc i)
  show ?case
  proof (cases "i < 4")
    case True
    then have "(2::int) ^ Suc i \<le> 2 ^ 4" by (intro power_increasing) auto
    then show ?thesis using Suc by (simp add: next_sleep_def min_def)
  next
    case False
    then have "(2::int) ^ 5 \<le> 2 ^ Suc i" by (intro power_increasing) auto
    then show ?thesis using Suc by (simp add: next_sleep_def min_def)
  qed
qed

text \<open>A loop that returned met a call that returned: a call that raises for ever is retried for ever.\<close>

lemma retry_loop_returned:
  assumes "retry_loop call k st sl = Some r"
  shows "\<exists>j\<ge>k. \<not> isl (call j)"
proof (rule retry_loop.raw_induct
    [where P = "\<lambda>call k st sl r. \<exists>j\<ge>k. \<not> isl (call j)", OF _ assms])
  fix f :: "(nat \<Rightarrow> exn + 'a) \<Rightarrow> nat \<Rightarrow> int \<Rightarrow> int list \<Rightarrow> ('a \<times> nat \<times> int list) option"
  fix call k st sl r
  assume IH: "\<And>call k st sl r. f call k st sl = Some r \<Longrightarrow> \<exists>j\<ge>k. \<not> isl (call j)"
  assume step: "(case call k of
      Inl err \<Rightarrow> f call (Suc k) (next_sleep st) (sl @ [st])
    | Inr v \<Rightarrow> Some (v, Suc k, sl @ [st])) = Some r"
  show "\<exists>j\<ge>k. \<not> isl (call j)"
  proof (cases "call k")
    case (Inl e)
    with step have "f call (Suc k) (next_sleep st) (sl @ [st]) = Some r" by simp
    from IH [OF this] obtain j where "Suc k \<le> j" and "\<not> isl (call j)" by blast
    then have "k \<le> j \<and> \<not> isl (call j)" by simp
    then show ?thesis by blast
  next
    case (Inr v)
    then have "k \<le> k \<and> \<not> isl (call k)" by simp
    then show ?thesis by blast
  qed
qed

lemma retry_loop_never_returns:
  assumes "\<forall>j\<ge>k. isl (call j)"
  shows "retry_loop call k st sl = None"
proof (cases "retry_loop call k st sl")
  case None
  then show ?thesis .
next
  case (Some r)
  from retry_loop_returned [OF this] assms show ?thesis by blast
qed

text \<open>
  C3. A remote call that raises on its first \<open>n\<close> attempts (the calls numbered
  \<open>k\<close> to \<open>k + n - 1\<close>) and returns \<open>v\<close> on the next one: the wrapped call returns \<open>v\<close> after
  exactly \<open>n + 1\<close> attempts, whatever \<open>n\<close> is, and the \<open>i\<close>-th sleep before a retry lasts
  \<open>min (2 ^ (i + 1)) 32\<close> seconds: 2, 4, 8, 16, 32, 32, ... The same holds for the fetch
  of the playlist when the exception of its first attempt is not a \<open>SpotifyException\<close>.
\<close>

theorem C3_backoff:
  assumes "\<forall>i<n. isl (call (k + i))" and "call (k + n) = Inr v"
  shows "with_retry call k sl =
           Some (v, Suc (k + n), sl @ map (\<lambda>i. min (2 ^ Suc i) 32) [0..<n])
    \<and> (call k \<noteq> Inl SpotifyException \<longrightarrow>
        get_playlist call k sl =
          Some (Some v, Suc (k + n), sl @ map (\<lambda>i. min (2 ^ Suc i) 32) [0..<n]))"
proof (cases n)
  case 0
  with assms show ?thesis by (simp add: with_retry_def get_playlist_def)
next
  case (Suc m)
  from assms(1) Suc have "isl (call k)" by (metis add.right_neutral zero_less_Suc)
  then obtain e where e: "call k = Inl e" by (cases "call k") auto
  have fails: "\<forall>i<m. isl (call (Suc k + i))"
    using assms(1) Suc by (metis Suc_less_eq add_Suc_shift)
  have ok: "call (Suc k + m) = Inr v" using assms(2) Suc by simp
  have loop: "retry_loop call (Suc k) 2 sl =
      Some (v, Suc (k + n), sl @ map (\<lambda>i. min (2 ^ Suc i) 32) [0..<n])"
    using retry_loop_sleeps [OF fails ok, of 2 sl] Suc by (simp add: next_sleep_iter)
  show ?thesis using e loop by (simp add: with_retry_def get_playlist_def)
qed

theorem C3_backoff_witness:
  "with_retry (\<lambda>j. if j < 7 then Inl NetworkError else Inr ''posts'') 0 []
     = Some (''posts'', 8, [2, 4, 8, 16, 32, 32, 32])
   \<and> get_playlist (\<lambda>j. if j < 7 then Inl NetworkError else Inr ''posts'') 0 []
     = Some (Some ''posts'', 8, [2, 4, 8, 16, 32, 32, 32])"
  using C3_backoff [of 7 "\<lambda>j. if j < 7 then Inl NetworkError else Inr ''posts''" 0 "''posts''" "[]"]
  by (simp add: upt_rec)

subsection \<open>Pages of tracks\<close>



subsection \<open>The artist list\<close>

text \<open>
  C8 (as the code has it). One artist gives the bare name, two artists give
  \<open>A and B\<close>, and three artists give \<open>A, B, and C\<close>: the artists before the last two
  are each followed by a comma and a space, and only the last two are joined by
  \<open>, and\<close>.
\<close>

theorem C8_artist_list_format:
  "arists_string [a] = a
   \<and> arists_string [a, b] = a @ '' and '' @ b
   \<and> arists_string [a, b, c] = a @ '', '' @ b @ '', and '' @ c
   \<and> arists_string [''A'', ''B'', ''C''] = ''A, B, and C''"
  by (simp add: arists_string_def)

text \<open>
  C8 as the specification words it asks for \<open>A, and B, and C\<close> for three artists;
  the code produces a different string.
\<close>

theorem C8_three_artists_counterexample:
  "arists_string [''A'', ''B'', ''C''] \<noteq> ''A, and B, and C''"
  by (simp add: arists_string_def)

subsection \<open>Recording a submission\<close>

text \<open>
  C1 (as the code has it). Whenever the body ends for a submission whose identifier was
  not yet in the list in memory (a reply, or one of the skips: too old, known to the
  table, not a playlist URL, no identifier in the path, playlist not found), the
  identifier is appended to the list and is in it exactly once. The table gains the row
  of the identifier and the time of the insert, exactly one row with that identifier,
  only when the reply was posted; after every skip the table is what it was.
\<close>

theorem C1_recording:
  assumes "handle_submission E s w = Some (Inr (out, w'))" and "out \<noteq> AlreadyCached"
  shows "count_list (submission_ids w') (submission_id s) = 1
    \<and> (case out of
          Replied r \<Rightarrow>
            submission_ids w' = evict (submission_ids w @ [submission_id s])
            \<and> submissions_table w' =
                Some (the (submissions_table w) @ [(submission_id s, utcnow E (Suc (clock_reads w)))])
            \<and> length (filter (\<lambda>row. fst row = submission_id s) (the (submissions_table w'))) = 1
        | _ \<Rightarrow>
            submission_ids w' = submission_ids w @ [submission_id s]
            \<and> submissions_table w' = submissions_table w)"
proof -
  from handle_submission_cases [OF assms]
  have fresh: "submission_id s \<notin> set (submission_ids w)"
    and alt: "(out \<in> {Stale, InStore, BadHost, NoPlaylistId, PlaylistNotFound}
          \<and> submission_ids w' = submission_ids w @ [submission_id s]
          \<and> submissions_table w' = submissions_table w)
        \<or> (\<exists>r rows. out = Replied r \<and> submissions_table w = Some rows
             \<and> submission_id s \<notin> fst ` set rows
             \<and> submission_ids w' = evict (submission_ids w @ [submission_id s])
             \<and> submissions_table w' =
                 Some (rows @ [(submission_id s, utcnow E (Suc (clock_reads w)))]))"
    by blast+
  from alt show ?thesis
  proof
    assume "out \<in> {Stale, InStore, BadHost, NoPlaylistId, PlaylistNotFound}
          \<and> submission_ids w' = submission_ids w @ [submission_id s]
          \<and> submissions_table w' = submissions_table w"
    with fresh show ?thesis by (auto simp add: count_list_0_iff)
  next
    assume "\<exists>r rows. out = Replied r \<and> submissions_table w = Some rows
             \<and> submission_id s \<notin> fst ` set rows
             \<and> submission_ids w' = evict (submission_ids w @ [submission_id s])
             \<and> submissions_table w' =
                 Some (rows @ [(submission_id s, utcnow E (Suc (clock_reads w)))])"
    then obtain r rows where r: "out = Replied r" "submissions_table w = Some rows"
      "submission_id s \<notin> fst ` set rows"
      "submission_ids w' = evict (submission_ids w @ [submission_id s])"
      "submissions_table w' = Some (rows @ [(submission_id s, utcnow E (Suc (clock_reads w)))])"
      by blast
    have "filter (\<lambda>row. fst row = submission_id s) rows = []"
      using r(3) by (force simp add: filter_empty_conv)
    with r fresh show ?thesis by (simp add: count_list_evict_new)
  qed
qed

theorem C1_recording_witness:
  "\<exists>r w'. handle_submission
         (example_env
            [Some example_track, Some (example_track\<lparr>popularity := 70, artists := [''D'']\<rparr>)])
         example_submission (startup (Some [])) = Some (Inr (Replied r, w'))
     \<and> count_list (submission_ids w') ''abc'' = 1
     \<and> submissions_table w' = Some [(''abc'', 1100)]"
proof -
  obtain r w' where h: "handle_submission
         (example_env
            [Some example_track, Some (example_track\<lparr>popularity := 70, artists := [''D'']\<rparr>)])
         example_submission (startup (Some [])) = Some (Inr (Replied r, w'))"
    using example_replies [of "startup (Some [])" "[]"] by (auto simp add: startup_def)
  have "Replied r \<noteq> AlreadyCached" by simp
  from C1_recording [OF h this]
  have "count_list (submission_ids w') ''abc'' = 1
     \<and> submissions_table w' = Some [(''abc'', 1100)]"
    by (simp add: example_defs evict.simps)
  with h show ?thesis by blast
qed

text \<open>
  C1 as the specification words it asks for a row in the table after every outcome. A
  submission older than 900 seconds ends as \<open>Stale\<close> with the table still empty.
\<close>

theorem C1_stale_not_stored_counterexample:
  "handle_submission (example_env []) (example_submission\<lparr>created_utc := 100\<rparr>)
     (startup (Some []))
   = Some (Inr (Stale,
       \<lparr>submission_ids = [''abc''], submissions_table = Some [], clock_reads = 1,
        new_calls = 0, playlist_calls = 0, tracks_calls = 0, requested_offsets = [],
        reply_calls = 0, replies = [], slept = []\<rparr>))"
  by (simp add: body_defs example_defs)

subsection \<open>The size of the list in memory\<close>

text \<open>
  C2 (as the code has it). When the body ends with a reply, which is the only path that
  runs the eviction loop, the list holds at most 125 identifiers afterwards: the newest
  125 of the old list followed by the new identifier, so the oldest are dropped first;
  from a list of 125 exactly the oldest one is dropped.
\<close>

theorem C2_eviction:
  assumes "handle_submission E s w = Some (Inr (Replied r, w'))"
  shows "length (submission_ids w') \<le> 125
    \<and> submission_ids w' =
        drop (Suc (length (submission_ids w)) - 125) (submission_ids w @ [submission_id s])
    \<and> (length (submission_ids w) = 125 \<longrightarrow>
         submission_ids w' = tl (submission_ids w) @ [submission_id s])"
proof -
  have "Replied r \<noteq> AlreadyCached" by simp
  from handle_submission_cases [OF assms this]
  have ev: "submission_ids w' = evict (submission_ids w @ [submission_id s])" by auto
  then have d: "submission_ids w' =
        drop (Suc (length (submission_ids w)) - 125) (submission_ids w @ [submission_id s])"
    by (simp add: evict_drop)
  have "length (submission_ids w') \<le> 125" by (subst d) simp
  moreover have "length (submission_ids w) = 125 \<longrightarrow>
         submission_ids w' = tl (submission_ids w) @ [submission_id s]"
    by (subst d) (simp add: drop_Suc)
  ultimately show ?thesis using d by blast
qed

theorem C2_eviction_witness:
  "\<exists>r w'. handle_submission
         (example_env
            [Some example_track, Some (example_track\<lparr>popularity := 70, artists := [''D'']\<rparr>)])
         example_submission
         ((startup (Some []))\<lparr>submission_ids := map numbered_id [0..<125]\<rparr>)
       = Some (Inr (Replied r, w'))
     \<and> length (submission_ids w') = 125
     \<and> submission_ids w' = map numbered_id [1..<125] @ [''abc'']"
proof -
  let ?w = "(startup (Some []))\<lparr>submission_ids := map numbered_id [0..<125]\<rparr>"
  have "''abc'' \<notin> set (submission_ids ?w)" using abc_not_numbered by auto
  then obtain r w' where h: "handle_submission
         (example_env
            [Some example_track, Some (example_track\<lparr>popularity := 70, artists := [''D'']\<rparr>)])
         example_submission ?w = Some (Inr (Replied r, w'))"
    using example_replies [of ?w "[]"] by (auto simp add: startup_def)
  from C2_eviction [OF h]
  have "submission_ids w' = tl (map numbered_id [0..<125]) @ [''abc'']"
    by (simp add: example_defs drop_Suc)
  then have "submission_ids w' = map numbered_id [1..<125] @ [''abc'']"
    by (simp add: map_tl [symmetric] tl_upt)
  with h show ?thesis by auto
qed

text \<open>
  C2 as the specification words it bounds the list at every point of the loop. Every
  skip appends to the list without running the eviction loop: after two rounds that each
  bring 63 new submissions older than 900 seconds, the list holds 126 identifiers.
\<close>

theorem C2_list_grows_counterexample:
  "work_rounds old_env 2 (startup (Some [])) =
     Some (Inr ((startup (Some []))\<lparr>submission_ids := map numbered_id [0..<126],
                                    clock_reads := 126, new_calls := 2\<rparr>))
   \<and> length (submission_ids ((startup (Some []))\<lparr>submission_ids := map numbered_id [0..<126],
                                    clock_reads := 126, new_calls := 2\<rparr>)) = 126"
proof -
  let ?w0 = "startup (Some [])"
  let ?w1 = "?w0\<lparr>submission_ids := map numbered_id [0..<63], clock_reads := 63, new_calls := 1\<rparr>"
  have r1: "work_round old_env ?w0 = Some (Inr ?w1)"
    using old_round [of ?w0] by (simp add: startup_def)
  have app: "map numbered_id [0..<63] @ map numbered_id [63..<126] = map numbered_id [0..<126]"
    using upt_add_eq_append [of 0 63 63]
    by (simp del: upt_rec_numeral upt_add_eq_append flip: map_append)
  have r2: "work_round old_env ?w1 =
      Some (Inr (?w0\<lparr>submission_ids := map numbered_id [0..<126],
                         clock_reads := 126, new_calls := 2\<rparr>))"
    using old_round [of ?w1] app by (simp add: startup_def del: upt_rec_numeral)
  have "work_rounds old_env 2 ?w0 = work_rounds old_env (Suc (Suc 0)) ?w0"
    by (simp add: numeral_2_eq_2)
  then show ?thesis using r1 r2 by simp
qed

subsection \<open>The checks before a submission is processed\<close>

text \<open>
  C5. The body checks in this order and stops at the first check that applies: an
  identifier in the list in memory ends the body with nothing changed; otherwise a
  submission more than 900 seconds old is skipped and its identifier appended to the
  list, with no call to the playlist service (the counters of calls are unchanged) and
  without looking at the table; otherwise an identifier found in the table is skipped
  and appended to the list; otherwise the submission is processed (lines 104-264).
\<close>

theorem C5_dedup_gate:
  "(submission_id s \<in> set (submission_ids w) \<longrightarrow>
      handle_submission E s w = Some (Inr (AlreadyCached, w)))
   \<and> (submission_id s \<notin> set (submission_ids w)
        \<and> utcnow E (clock_reads w) - created_utc s > 900 \<longrightarrow>
      handle_submission E s w =
        Some (Inr (Stale, w\<lparr>submission_ids := submission_ids w @ [submission_id s],
                            clock_reads := Suc (clock_reads w)\<rparr>)))
   \<and> (submission_id s \<notin> set (submission_ids w)
        \<and> utcnow E (clock_reads w) - created_utc s \<le> 900
        \<and> submissions_table w = Some rows \<and> submission_id s \<in> fst ` set rows \<longrightarrow>
      handle_submission E s w =
        Some (Inr (InStore, w\<lparr>submission_ids := submission_ids w @ [submission_id s],
                              clock_reads := Suc (clock_reads w)\<rparr>)))
   \<and> (submission_id s \<notin> set (submission_ids w)
        \<and> utcnow E (clock_reads w) - created_utc s \<le> 900
        \<and> submissions_table w = Some rows \<and> submission_id s \<notin> fst ` set rows \<longrightarrow>
      handle_submission E s w =
        process_submission E s rows (w\<lparr>clock_reads := Suc (clock_reads w)\<rparr>))"
  by (simp add: handle_submission_def append_id_def)

theorem C5_dedup_gate_witness:
  "handle_submission (example_env []) example_submission
      ((startup None)\<lparr>submission_ids := [''abc'']\<rparr>)
     = Some (Inr (AlreadyCached, (startup None)\<lparr>submission_ids := [''abc'']\<rparr>))
   \<and> handle_submission (example_env []) (example_submission\<lparr>created_utc := 199\<rparr>)
      (startup (Some [(''abc'', 150)]))
     = Some (Inr (Stale, (startup (Some [(''abc'', 150)]))\<lparr>submission_ids := [''abc''], clock_reads := 1\<rparr>))
   \<and> handle_submission (example_env []) (example_submission\<lparr>created_utc := 200\<rparr>)
      (startup (Some [(''abc'', 150)]))
     = Some (Inr (InStore, (startup (Some [(''abc'', 150)]))\<lparr>submission_ids := [''abc''], clock_reads := 1\<rparr>))
   \<and> handle_submission (example_env []) example_submission (startup (Some [(''xyz'', 150)]))
     = process_submission (example_env []) example_submission [(''xyz'', 150)]
         ((startup (Some [(''xyz'', 150)]))\<lparr>clock_reads := 1\<rparr>)"
  using C5_dedup_gate [of example_submission "(startup None)\<lparr>submission_ids := [''abc'']\<rparr>"
      "example_env []" "[]"]
    C5_dedup_gate [of "example_submission\<lparr>created_utc := 199\<rparr>" "startup (Some [(''abc'', 150)])"
      "example_env []" "[(''abc'', 150)]"]
    C5_dedup_gate [of "example_submission\<lparr>created_utc := 200\<rparr>" "startup (Some [(''abc'', 150)])"
      "example_env []" "[(''abc'', 150)]"]
    C5_dedup_gate [of example_submission "startup (Some [(''xyz'', 150)])"
      "example_env []" "[(''xyz'', 150)]"]
  by (simp add: example_defs)

subsection \<open>The identifier in the URL\<close>

text \<open>
  C6 (as the code has it). A URL whose host is not \<open>open.spotify.com\<close> is skipped (its
  identifier appended to the list, nothing raised). Otherwise only the first segment of
  the path decides: when it is \<open>playlist\<close> (in any letter case) and a second segment
  exists, the identifier is the second segment; when it is \<open>user\<close> and a fourth segment
  exists, the identifier is the fourth segment, whatever the third segment is; when it
  is neither, no identifier is found and the submission is skipped.
\<close>

theorem C6_playlist_id:
  "(host (furl E (url s)) \<noteq> Some ''open.spotify.com'' \<longrightarrow>
      process_submission E s rows w = Some (Inr (BadHost, append_id (submission_id s) w)))
   \<and> (lower s0 = ''playlist'' \<longrightarrow> playlist_id_of (s0 # i # rest) = Inr (Some i))
   \<and> (lower s0 = ''user'' \<longrightarrow> playlist_id_of (s0 # u # x # i # rest) = Inr (Some i))
   \<and> (lower s0 \<noteq> ''playlist'' \<and> lower s0 \<noteq> ''user'' \<longrightarrow>
        playlist_id_of (s0 # rest) = Inr None
        \<and> (host (furl E (url s)) = Some ''open.spotify.com''
             \<and> segments (furl E (url s)) = s0 # rest \<longrightarrow>
            process_submission E s rows w =
              Some (Inr (NoPlaylistId, append_id (submission_id s) w))))"
  by (simp add: process_submission_def playlist_id_of_def index_def)

theorem C6_playlist_id_witness:
  "process_submission
      ((example_env [])\<lparr>furl := (\<lambda>u. \<lparr>host = Some ''www.youtube.com'', segments = [''watch'']\<rparr>)\<rparr>)
      example_submission [] (startup (Some []))
     = Some (Inr (BadHost, (startup (Some []))\<lparr>submission_ids := [''abc'']\<rparr>))
   \<and> playlist_id_of [''playlist'', ''37i9dQZF1DX''] = Inr (Some ''37i9dQZF1DX'')
   \<and> playlist_id_of [''user'', ''bob'', ''playlist'', ''37i9dQZF1DX''] = Inr (Some ''37i9dQZF1DX'')
   \<and> playlist_id_of [''album'', ''4aawyAB9vmq''] = Inr None
   \<and> process_submission
      ((example_env [])\<lparr>furl := (\<lambda>u. \<lparr>host = Some ''open.spotify.com'', segments = [''album'', ''4aawyAB9vmq'']\<rparr>)\<rparr>)
      example_submission [] (startup (Some []))
     = Some (Inr (NoPlaylistId, (startup (Some []))\<lparr>submission_ids := [''abc'']\<rparr>))"
  using C6_playlist_id [of
      "(example_env [])\<lparr>furl := (\<lambda>u. \<lparr>host = Some ''www.youtube.com'', segments = [''watch'']\<rparr>)\<rparr>"
      example_submission "[]" "startup (Some [])" "''playlist''" "''37i9dQZF1DX''" "[]" "''bob''" "''playlist''"]
    C6_playlist_id [of
      "(example_env [])\<lparr>furl := (\<lambda>u. \<lparr>host = Some ''open.spotify.com'', segments = [''album'', ''4aawyAB9vmq'']\<rparr>)\<rparr>"
      example_submission "[]" "startup (Some [])" "''user''" "''37i9dQZF1DX''" "[]" "''bob''" "''playlist''"]
    C6_playlist_id [of
      "(example_env [])\<lparr>furl := (\<lambda>u. \<lparr>host = Some ''open.spotify.com'', segments = [''album'', ''4aawyAB9vmq'']\<rparr>)\<rparr>"
      example_submission "[]" "startup (Some [])" "''album''" "''37i9dQZF1DX''" "[''4aawyAB9vmq'']" "''bob''" "''playlist''"]
  by (simp add: example_defs append_id_def lower_def lower_char_def)

text \<open>
  C6 as the specification words it finds no identifier for any path that is not
  \<open>/playlist/{id}\<close> or \<open>/user/{username}/playlist/{id}\<close>. The path \<open>/user/bob/album/...\<close> has
  another shape, and the code takes its fourth segment as the identifier.
\<close>

theorem C6_other_shape_counterexample:
  "playlist_id_of [''user'', ''bob'', ''album'', ''4aawyAB9vmq''] = Inr (Some ''4aawyAB9vmq'')
   \<and> playlist_id_of [''user'', ''bob'', ''album'', ''4aawyAB9vmq''] \<noteq> Inr None"
  by (simp add: playlist_id_of_def index_def lower_def lower_char_def)

text \<open>A path too short for the index its first segment selects raises \<open>IndexError\<close>.\<close>

lemma short_paths_raise:
  "playlist_id_of [] = Inl IndexError"
  "playlist_id_of [''playlist''] = Inl IndexError"
  "playlist_id_of [''user'', ''bob'', ''playlist''] = Inl IndexError"
  by (simp_all add: playlist_id_of_def index_def lower_def lower_char_def)

subsection \<open>A playlist that is not found\<close>

text \<open>
  The first attempt. A submission passes the checks and its URL gives an identifier; the
  first call of the playlist fetch raises \<open>SpotifyException\<close>. Then the body ends with
  exactly one call of the fetch made, no sleep, no page request, no reply, the table
  unchanged, and the identifier appended to the list in memory (lines 129-132).
\<close>

lemma first_attempt_not_found:
  assumes "submission_id s \<notin> set (submission_ids w)"
    and "\<not> created_utc s < utcnow E (clock_reads w) - 900"
    and "submissions_table w = Some rows"
    and "submission_id s \<notin> fst ` set rows"
    and "host (furl E (url s)) = Some ''open.spotify.com''"
    and "playlist_id_of (segments (furl E (url s))) = Inr (Some pid)"
    and "spotify_playlist E (playlist_calls w) pid = Inl SpotifyException"
  shows "handle_submission E s w =
           Some (Inr (PlaylistNotFound,
             w\<lparr>submission_ids := submission_ids w @ [submission_id s],
               clock_reads := Suc (clock_reads w),
               playlist_calls := Suc (playlist_calls w)\<rparr>))"
  using assms
  by (simp add: handle_submission_def process_submission_def reply_to_playlist_def
      get_playlist_def append_id_def)

lemma first_attempt_not_found_example:
  "handle_submission ((example_env [])\<lparr>spotify_playlist := (\<lambda>k i. Inl SpotifyException)\<rparr>)
      example_submission (startup (Some []))
   = Some (Inr (PlaylistNotFound,
       \<lparr>submission_ids = [''abc''], submissions_table = Some [], clock_reads = 1,
        new_calls = 0, playlist_calls = 1, tracks_calls = 0, requested_offsets = [],
        reply_calls = 0, replies = [], slept = []\<rparr>))"
  using first_attempt_not_found [of example_submission "startup (Some [])"
      "(example_env [])\<lparr>spotify_playlist := (\<lambda>k i. Inl SpotifyException)\<rparr>" "[]" "''p1''"]
  by (simp add: example_defs playlist_id_of_def index_def lower_def lower_char_def)

text \<open>
  The handler inside the retry loop (line 152) catches every exception: a
  \<open>SpotifyException\<close> that follows a failed first attempt is retried like any other.
\<close>

lemma not_found_inside_the_loop_is_retried:
  "get_playlist (\<lambda>j. if j = 0 then Inl NetworkError else Inl SpotifyException) 0 [] = None"
  by (simp add: get_playlist_def retry_loop_never_returns)

text \<open>
  C4, evaluated on a playlist fetch whose first call fails with a network error and
  whose every later call raises \<open>SpotifyException\<close>, the class of a playlist that is not
  found: the fetch does not stop at the not-found answer but is retried for ever, so
  the body never ends for this submission, and its identifier is never appended to the
  list in memory.
\<close>

theorem C4_not_found_after_transient_failure:
  "get_playlist (\<lambda>k. if k = 0 then Inl NetworkError else Inl SpotifyException) 0 [] = None
   \<and> handle_submission
        ((example_env [])\<lparr>spotify_playlist :=
            (\<lambda>k i. if k = 0 then Inl NetworkError else Inl SpotifyException)\<rparr>)
        example_submission (startup (Some []))
       = None"
  by (simp add: body_defs example_defs retry_loop_never_returns)

subsection \<open>Tracks that are no longer available\<close>

lemma top_tracks_None: "None \<in> set items \<Longrightarrow> top_tracks response items = Inl TypeError"
  by (induction response items rule: top_tracks.induct) auto

lemma top_tracks_no_None:
  "None \<notin> set items \<Longrightarrow> \<exists>r. top_tracks response items = Inr r"
  by (induction response items rule: top_tracks.induct) auto

lemma build_response_returns_iff:
  "(\<exists>r. build_response s p = Inr r) \<longleftrightarrow>
   None \<notin> set (take 5 (ranked_tracks (tracks_items p)))"
proof
  assume ret: "\<exists>r. build_response s p = Inr r"
  show "None \<notin> set (take 5 (ranked_tracks (tracks_items p)))"
  proof
    assume "None \<in> set (take 5 (ranked_tracks (tracks_items p)))"
    then have "build_response s p = Inl TypeError"
      unfolding build_response_def by (rule top_tracks_None)
    with ret show False by simp
  qed
next
  assume "None \<notin> set (take 5 (ranked_tracks (tracks_items p)))"
  then show "\<exists>r. build_response s p = Inr r"
    unfolding build_response_def by (rule top_tracks_no_None)
qed

lemma total_ms_skips_None: "total_ms (None # items) = total_ms items"
  by (simp add: total_ms_def)

text \<open>
  C7, evaluated on a playlist of three items whose first track is \<open>None\<close>: the duration
  is the sum over the two other tracks and the \<open>None\<close> item is ranked with popularity 0,
  behind them, but it is among the first five, and building the reply raises
  \<open>TypeError\<close>: the body ends there, with no reply.
\<close>

theorem C7_null_track_in_top_five:
  "total_ms [None, Some example_track, Some (example_track\<lparr>duration_ms := 180000\<rparr>)] = 300000
   \<and> ranked_tracks [None, Some example_track, Some (example_track\<lparr>duration_ms := 180000\<rparr>)]
       = [Some example_track, Some (example_track\<lparr>duration_ms := 180000\<rparr>), None]
   \<and> build_response example_submission
        (example_playlist [None, Some example_track, Some (example_track\<lparr>duration_ms := 180000\<rparr>)])
       = Inl TypeError
   \<and> handle_submission
        (example_env [None, Some example_track, Some (example_track\<lparr>duration_ms := 180000\<rparr>)])
        example_submission (startup (Some []))
       = Some (Inl TypeError)"
  by (simp add: body_defs example_defs response_defs fetch_all_tracks_done)

subsection \<open>A database without the table\<close>

text \<open>
  C9, evaluated on a new database: the state after startup has no table \<open>submissions\<close>,
  and the first submission that reaches the \<open>select\<close> of line 99 raises
  \<open>OperationalError\<close>, which ends the first round of the work loop.
\<close>

theorem C9_fresh_database:
  "submissions_table (startup None) = None
   \<and> handle_submission (example_env [Some example_track]) example_submission (startup None)
       = Some (Inl OperationalError)
   \<and> work_rounds (example_env [Some example_track]) 1 (startup None)
       = Some (Inl OperationalError)"
  by (simp add: handle_submission_def work_round_def with_retry_def example_defs)

end
